theory Spec2Isabelle
  imports Complex_Main
begin

section \<open>The pension fund tax calculator of VPF\_Calculator.py\<close>

text \<open>
  The computational core of \<^verbatim>\<open>VPF_Calculator.py\<close>: the two slab tables, the salaried
  and the business tax resolvers and \<^verbatim>\<open>pension_tax_calculator\<close>.

  Numbers. The Python functions take and return ints and floats. Every int and every
  finite float is a rational number and Python compares an int with a float by value, so
  a number is modelled as a \<^typ>\<open>rat\<close>. The arithmetic of the model is exact: the rounding
  error of a float operation is not part of it, and neither are the floats
  \<^verbatim>\<open>inf\<close> and \<^verbatim>\<open>nan\<close> as inputs. The one infinite value of the source, the bound
  \<^verbatim>\<open>float("inf")\<close> of the last business bracket, is a constructor of its own.

  Failures. A dictionary lookup, an index into a list and a division can raise in Python;
  the model returns the exception as a value (\<open>Inl\<close>), so that "does not raise" is a
  statement about the model and not an assumption of it.
\<close>

subsection \<open>Exceptions and the partial operations of Python\<close>

datatype py_error = KeyError | IndexError | ZeroDivisionError

text \<open>\<^verbatim>\<open>d[k]\<close> on a dictionary given as the list of its items.\<close>

definition dict_lookup :: "('k \<times> 'v) list \<Rightarrow> 'k \<Rightarrow> py_error + 'v" where
  "dict_lookup d k = (case map_of d k of None \<Rightarrow> Inl KeyError | Some v \<Rightarrow> Inr v)"

text \<open>\<^verbatim>\<open>xs[-1]\<close>.\<close>

definition list_last :: "'a list \<Rightarrow> py_error + 'a" where
  "list_last xs = (if xs = [] then Inl IndexError else Inr (last xs))"

text \<open>\<^verbatim>\<open>a / b\<close>.\<close>

definition py_div :: "rat \<Rightarrow> rat \<Rightarrow> py_error + rat" where
  "py_div a b = (if b = 0 then Inl ZeroDivisionError else Inr (a / b))"

text \<open>
  \<^verbatim>\<open>round(x, 0)\<close>: the nearest whole number, a tie going to the even neighbour. An int
  is returned as it is, which is the same value.
\<close>

definition py_round :: "rat \<Rightarrow> rat" where
  "py_round x =
     (let f = \<lfloor>x\<rfloor>; d = x - of_int f
      in of_int (if d < 1 / 2 then f
                 else if 1 / 2 < d then f + 1
                 else if even f then f else f + 1))"

text \<open>
  \<^verbatim>\<open>s.title()\<close> on ASCII text: a letter that follows a letter is made lower case, any
  other letter upper case, and every other character is kept.
\<close>

definition is_upper :: "char \<Rightarrow> bool" where
  "is_upper c = (65 \<le> (of_char c :: nat) \<and> (of_char c :: nat) \<le> 90)"

definition is_lower :: "char \<Rightarrow> bool" where
  "is_lower c = (97 \<le> (of_char c :: nat) \<and> (of_char c :: nat) \<le> 122)"

definition to_upper :: "char \<Rightarrow> char" where
  "to_upper c = (if is_lower c then char_of ((of_char c :: nat) - 32) else c)"

definition to_lower :: "char \<Rightarrow> char" where
  "to_lower c = (if is_upper c then char_of ((of_char c :: nat) + 32) else c)"

fun title_from :: "bool \<Rightarrow> string \<Rightarrow> string" where
  "title_from prev [] = []"
| "title_from prev (c # cs) =
     (if is_upper c \<or> is_lower c
      then (if prev then to_lower c else to_upper c) # title_from True cs
      else c # title_from False cs)"

definition title :: "string \<Rightarrow> string" where
  "title s = title_from False s"

subsection \<open>The slab tables\<close>

text \<open>The dictionary \<^verbatim>\<open>salary_slabs\<close>, its items in the order of the source.\<close>

definition salary_slabs :: "(rat \<times> rat) list" where
  "salary_slabs =
    [(600000, 0),
     (1200000, 6000),
     (1800000, 72000),
     (2400000, 162000),
     (2700000, 231000),
     (3000000, 300000),
     (3600000, 466000),
     (4200000, 651000),
     (4800000, 861000),
     (5400000, 1071000),
     (6000000, 1281000),
     (6600000, 1491000),
     (7200000, 1701000),
     (9600000, 2541000),
     (12000000, 3692850),
     (18000000, 5981850),
     (24000000, 8270850),
     (30000000, 10559850),
     (33600000, 11933250),
     (36000000, 12848850)]"

text \<open>A bracket bound: a number, or \<^verbatim>\<open>float("inf")\<close>.\<close>

datatype bound = Finite rat | PosInf

fun le_bound :: "rat \<Rightarrow> bound \<Rightarrow> bool" where
  "le_bound x (Finite b) = (x \<le> b)"
| "le_bound x PosInf = True"

text \<open>A business bracket is the tuple (limit, base\_tax, rate).\<close>

type_synonym slab = "bound \<times> rat \<times> rat"

definition business_slabs :: "slab list" where
  "business_slabs =
    [(Finite 600000, 0, 0),
     (Finite 800000, 0, 0.05),
     (Finite 1200000, 10000, 0.125),
     (Finite 2400000, 60000, 0.175),
     (Finite 3000000, 270000, 0.225),
     (Finite 4000000, 405000, 0.275),
     (Finite 6000000, 680000, 0.325),
     (PosInf, 1330000, 0.35)]"

subsection \<open>calculate\_business\_tax\<close>

text \<open>
  The loop over \<^verbatim>\<open>enumerate(business_slabs)\<close>. The source reads the lower bound of
  bracket \<open>i\<close> back from the table, \<^verbatim>\<open>business_slabs[i - 1][0] if i > 0 else 0\<close>
  (\<open>lower_bound_at\<close> below); the loop of the model carries that value along: it
  starts at 0 and becomes the limit of each bracket the loop passes. A bracket is passed
  only when the income is above its limit, so the value carried is a number; at an infinite
  limit the comparison holds and the loop returns. The statement after the loop,
  \<^verbatim>\<open>return 0\<close>, is the case of the empty list.
\<close>

fun business_scan :: "rat \<Rightarrow> rat \<Rightarrow> slab list \<Rightarrow> rat" where
  "business_scan annual_income lower_bound [] = 0"
| "business_scan annual_income lower_bound ((Finite limit, base_tax, rate) # rest) =
     (if annual_income \<le> limit then base_tax + (annual_income - lower_bound) * rate
      else business_scan annual_income limit rest)"
| "business_scan annual_income lower_bound ((PosInf, base_tax, rate) # rest) =
     base_tax + (annual_income - lower_bound) * rate"

definition calculate_business_tax :: "rat \<Rightarrow> rat" where
  "calculate_business_tax annual_income =
     (if annual_income \<le> 600000 then 0
      else business_scan annual_income 0 business_slabs)"

text \<open>Line 54 of the source, as it stands: the lower bound the source uses at index \<open>i\<close>.\<close>

definition lower_bound_at :: "nat \<Rightarrow> bound" where
  "lower_bound_at i = (if i > 0 then fst (business_slabs ! (i - 1)) else Finite 0)"

subsection \<open>get\_salaried\_tax\<close>

definition get_salaried_tax :: "rat \<Rightarrow> py_error + rat" where
  "get_salaried_tax annual_income =
     (let sorted_slabs = sort (map fst salary_slabs)
      in case find (\<lambda>slab. annual_income \<le> slab) sorted_slabs of
           Some slab \<Rightarrow> dict_lookup salary_slabs slab
         | None \<Rightarrow>
             (case list_last sorted_slabs of
                Inl e \<Rightarrow> Inl e
              | Inr largest \<Rightarrow> dict_lookup salary_slabs largest))"

subsection \<open>pension\_tax\_calculator\<close>

text \<open>
  The values of the local variables of \<^verbatim>\<open>pension_tax_calculator\<close> when it reaches its
  last statement (lines 69 to 88), and the dictionary that statement builds from them
  (lines 90 to 100), every number of it rounded.
\<close>

record locals =
  loc_tax_2026 :: rat
  loc_avg_tax_rate :: rat
  loc_max_invest :: rat
  loc_invest :: rat
  loc_rebate :: rat
  loc_new_tax :: rat

record result =
  Income_Type :: string
  Annual_Income :: rat
  Monthly_Income :: rat
  Tax_Without_Pension :: rat
  Max_Pension_Investment :: rat
  Your_Pension_Investment :: rat
  Tax_Saving :: rat
  New_Tax_Payable :: rat
  Monthly_Saving :: rat

text \<open>Lines 69 to 74: the base tax, \<open>Inr None\<close> where the source returns \<^verbatim>\<open>None\<close>.\<close>

definition resolve_tax :: "string \<Rightarrow> rat \<Rightarrow> py_error + rat option" where
  "resolve_tax income_type annual_income =
     (if income_type = ''salaried'' then
        (case get_salaried_tax annual_income of
           Inl e \<Rightarrow> Inl e
         | Inr t \<Rightarrow> Inr (Some t))
      else if income_type = ''business'' then
        Inr (Some (calculate_business_tax annual_income))
      else Inr None)"

text \<open>Lines 76 to 88.\<close>

definition pension_tax_locals ::
  "string \<Rightarrow> rat \<Rightarrow> rat option \<Rightarrow> py_error + locals option" where
  "pension_tax_locals income_type annual_income pension_invest =
     (case resolve_tax income_type annual_income of
        Inl e \<Rightarrow> Inl e
      | Inr None \<Rightarrow> Inr None
      | Inr (Some tax_2026) \<Rightarrow>
          if annual_income = 0 then Inr None
          else
            (case (if tax_2026 > 0 then py_div tax_2026 annual_income else Inr 0) of
               Inl e \<Rightarrow> Inl e
             | Inr avg_tax_rate \<Rightarrow>
                 (let max_invest = 0.20 * annual_income;
                      invest =
                        (if pension_invest = None \<or> pension_invest = Some 0
                         then max_invest
                         else min (the pension_invest) max_invest);
                      rebate = invest * avg_tax_rate;
                      new_tax = tax_2026 - rebate
                  in Inr (Some \<lparr>loc_tax_2026 = tax_2026,
                                 loc_avg_tax_rate = avg_tax_rate,
                                 loc_max_invest = max_invest,
                                 loc_invest = invest,
                                 loc_rebate = rebate,
                                 loc_new_tax = new_tax\<rparr>))))"

text \<open>Lines 90 to 100.\<close>

definition report :: "string \<Rightarrow> rat \<Rightarrow> locals \<Rightarrow> result" where
  "report income_type annual_income l =
     \<lparr>Income_Type = title income_type,
      Annual_Income = py_round annual_income,
      Monthly_Income = py_round (annual_income / 12),
      Tax_Without_Pension = py_round (loc_tax_2026 l),
      Max_Pension_Investment = py_round (loc_max_invest l),
      Your_Pension_Investment = py_round (loc_invest l),
      Tax_Saving = py_round (loc_rebate l),
      New_Tax_Payable = py_round (loc_new_tax l),
      Monthly_Saving = py_round (loc_rebate l / 12)\<rparr>"

definition pension_tax_calculator ::
  "string \<Rightarrow> rat \<Rightarrow> rat option \<Rightarrow> py_error + result option" where
  "pension_tax_calculator income_type annual_income pension_invest =
     (case pension_tax_locals income_type annual_income pension_invest of
        Inl e \<Rightarrow> Inl e
      | Inr None \<Rightarrow> Inr None
      | Inr (Some l) \<Rightarrow> Inr (Some (report income_type annual_income l)))"

section \<open>Facts about the operations\<close>

subsection \<open>Rounding\<close>

lemma py_round_of_int: "py_round (of_int n) = of_int n"
  by (simp add: py_round_def)

lemma py_round_numeral: "py_round (numeral n) = numeral n"
  using py_round_of_int [of "numeral n"] by simp

lemma py_round_zero: "py_round 0 = 0"
  using py_round_of_int [of 0] by simp

lemma py_round_cases:
  obtains (down) "py_round x = of_int \<lfloor>x\<rfloor>" "x - of_int \<lfloor>x\<rfloor> \<le> 1 / 2"
        | (up) "py_round x = of_int \<lfloor>x\<rfloor> + 1" "1 / 2 \<le> x - of_int \<lfloor>x\<rfloor>"
  unfolding py_round_def Let_def
  by (cases "x - of_int \<lfloor>x\<rfloor> < 1 / 2"; cases "1 / 2 < x - of_int \<lfloor>x\<rfloor>"; cases "even \<lfloor>x\<rfloor>") auto

lemma py_round_near: "\<bar>py_round x - x\<bar> \<le> 1 / 2"
proof (cases x rule: py_round_cases)
  case down
  have "of_int \<lfloor>x\<rfloor> \<le> x" by simp
  with down show ?thesis by linarith
next
  case up
  have "x < of_int \<lfloor>x\<rfloor> + 1" by linarith
  with up show ?thesis by linarith
qed

lemma py_round_mono:
  assumes "x \<le> y"
  shows "py_round x \<le> py_round y"
proof (cases "\<lfloor>x\<rfloor> = \<lfloor>y\<rfloor>")
  case True
  with assms show ?thesis
    unfolding py_round_def Let_def by auto
next
  case False
  with assms have "\<lfloor>x\<rfloor> < \<lfloor>y\<rfloor>"
    by (simp add: floor_mono order.strict_iff_order)
  then have "\<lfloor>x\<rfloor> + 1 \<le> \<lfloor>y\<rfloor>" by simp
  then have le: "(of_int \<lfloor>x\<rfloor> :: rat) + 1 \<le> of_int \<lfloor>y\<rfloor>"
    by (metis of_int_1 of_int_add of_int_le_iff)
  have a: "py_round x \<le> of_int \<lfloor>x\<rfloor> + 1"
    by (cases x rule: py_round_cases) auto
  have b: "of_int \<lfloor>y\<rfloor> \<le> py_round y"
    by (cases y rule: py_round_cases) auto
  from a b le show ?thesis by linarith
qed

lemma py_round_nonneg: "0 \<le> x \<Longrightarrow> 0 \<le> py_round x"
  using py_round_mono [of 0 x] by (simp add: py_round_zero)

lemma py_round_nonpos: "x \<le> 0 \<Longrightarrow> py_round x \<le> 0"
  using py_round_mono [of x 0] by (simp add: py_round_zero)

lemma py_round_whole: "py_round x \<in> \<int>"
  by (simp add: py_round_def Let_def)

text \<open>Rounding each of three figures moves their balance by at most one unit.\<close>

lemma py_round_diff: "\<bar>py_round (a - b) - (py_round a - py_round b)\<bar> \<le> 1"
proof -
  obtain ka where ka: "py_round a = of_int ka"
    using py_round_whole [of a] by (auto elim: Ints_cases)
  obtain kb where kb: "py_round b = of_int kb"
    using py_round_whole [of b] by (auto elim: Ints_cases)
  obtain kc where kc: "py_round (a - b) = of_int kc"
    using py_round_whole [of "a - b"] by (auto elim: Ints_cases)
  have "\<bar>py_round (a - b) - (py_round a - py_round b)\<bar> \<le> 3 / 2"
    using py_round_near [of a] py_round_near [of b] py_round_near [of "a - b"]
    by linarith
  then have "\<bar>(of_int (kc - (ka - kb)) :: rat)\<bar> < 2"
    by (simp add: ka kb kc)
  then have "\<bar>kc - (ka - kb)\<bar> < 2"
    by (metis of_int_abs of_int_less_iff of_int_numeral)
  then have "\<bar>kc - (ka - kb)\<bar> \<le> 1" by simp
  then have "\<bar>(of_int (kc - (ka - kb)) :: rat)\<bar> \<le> 1"
    by (metis of_int_abs of_int_le_iff of_int_1)
  then show ?thesis by (simp add: ka kb kc)
qed

lemma py_round_Ints: "x \<in> \<int> \<Longrightarrow> py_round x = x"
  by (auto elim!: Ints_cases simp: py_round_of_int)

text \<open>The figures rounded in the examples below.\<close>

lemma py_round_samples:
  "py_round (3 / 5) = 1" "py_round (3 / 25) = 0" "py_round (12 / 25) = 0"
  "py_round (600012 / 5) = 120002" "py_round (1 / 100) = 0"
  "py_round (- (1 / 2)) = 0" "py_round (- (1 / 400)) = 0" "py_round (2400001 / 400) = 6000"
  "py_round (- (1 / 4800)) = 0"
  by code_simp+

subsection \<open>The label\<close>

lemma title_salaried: "title ''salaried'' = ''Salaried''"
  by code_simp

lemma title_business: "title ''business'' = ''Business''"
  by code_simp

subsection \<open>The salary table and its resolver\<close>

lemma keys_sorted: "sorted (map fst salary_slabs)"
  by (simp add: salary_slabs_def)

lemma sorted_slabs_eq: "sort (map fst salary_slabs) = map fst salary_slabs"
  by (simp add: salary_slabs_def)

lemma keys_distinct: "distinct (map fst salary_slabs)"
  by (simp add: salary_slabs_def)

lemma taxes_sorted: "sorted (map snd salary_slabs)"
  by (simp add: salary_slabs_def)

lemma keys_last: "last (map fst salary_slabs) = 36000000"
  by (simp add: salary_slabs_def)

lemma keys_le_top: "k \<in> set (map fst salary_slabs) \<Longrightarrow> k \<le> 36000000"
  by (auto simp: salary_slabs_def)

lemma top_lookup: "map_of salary_slabs 36000000 = Some 12848850"
  by (simp add: salary_slabs_def)

lemma find_le_sorted:
  assumes "sorted ks" and "find (\<lambda>s. x \<le> s) ks = Some b"
  shows "b \<in> set ks \<and> x \<le> b \<and> (\<forall>b'\<in>set ks. x \<le> b' \<longrightarrow> b \<le> b')"
  using assms
proof (induction ks)
  case Nil
  then show ?case by simp
next
  case (Cons k ks)
  show ?case
  proof (cases "x \<le> k")
    case True
    with Cons.prems show ?thesis by auto
  next
    case False
    with Cons.prems have "find (\<lambda>s. x \<le> s) ks = Some b" and "sorted ks"
      by simp_all
    with Cons.IH have "b \<in> set ks \<and> x \<le> b \<and> (\<forall>b'\<in>set ks. x \<le> b' \<longrightarrow> b \<le> b')"
      by blast
    with False show ?thesis by auto
  qed
qed

lemma find_le_none: "find (\<lambda>s. x \<le> s) ks = None \<longleftrightarrow> (\<forall>b\<in>set ks. b < (x::rat))"
  by (auto simp: find_None_iff)

lemma lookup_mono:
  assumes "sorted (map fst ps)" and "distinct (map fst ps)" and "sorted (map snd ps)"
    and "map_of ps k = Some v" and "map_of ps k' = Some v'" and "k \<le> k'"
  shows "v \<le> (v' :: rat)"
  using assms
proof (induction ps)
  case Nil
  then show ?case by simp
next
  case (Cons p ps)
  obtain a t where p: "p = (a, t)" by (cases p)
  show ?case
  proof (cases "k = a")
    case ka: True
    show ?thesis
    proof (cases "k' = a")
      case True
      with ka Cons.prems p show ?thesis by simp
    next
      case False
      with Cons.prems p have "map_of ps k' = Some v'" by simp
      then have "(k', v') \<in> set ps" by (rule map_of_SomeD)
      then have "v' \<in> snd ` set ps" by force
      with Cons.prems(3) p have "t \<le> v'" by auto
      with ka Cons.prems(4) p show ?thesis by simp
    qed
  next
    case kna: False
    with Cons.prems p have mk: "map_of ps k = Some v" by simp
    then have "(k, v) \<in> set ps" by (rule map_of_SomeD)
    then have "k \<in> fst ` set ps" by force
    with Cons.prems(1) p have "a \<le> k" by auto
    with kna Cons.prems(6) have "k' \<noteq> a" by auto
    with Cons.prems p have "map_of ps k' = Some v'" by simp
    with Cons.IH mk Cons.prems p show ?thesis by simp
  qed
qed

lemma key_has_tax: "k \<in> set (map fst salary_slabs) \<Longrightarrow> \<exists>t. map_of salary_slabs k = Some t"
  by (metis (no_types, opaque_lifting) domD dom_map_of_conv_image_fst set_map)

lemma taxes_nonneg: "map_of salary_slabs k = Some t \<Longrightarrow> 0 \<le> t"
  by (auto simp: salary_slabs_def split: if_splits)

text \<open>The key the resolver settles on.\<close>

lemma get_salaried_tax_key:
  "\<exists>k t. map_of salary_slabs k = Some t \<and> get_salaried_tax x = Inr t \<and>
     (x \<le> k \<and> (\<forall>k'\<in>set (map fst salary_slabs). x \<le> k' \<longrightarrow> k \<le> k')
      \<or> 36000000 < x \<and> k = 36000000)"
proof (cases "find (\<lambda>s. x \<le> s) (map fst salary_slabs)")
  case None
  then have "\<forall>b\<in>set (map fst salary_slabs). b < x" by (simp only: find_le_none)
  moreover have "36000000 \<in> set (map fst salary_slabs)" by (simp add: salary_slabs_def)
  ultimately have "36000000 < x" by blast
  moreover from None have "get_salaried_tax x = Inr 12848850"
    by (simp add: get_salaried_tax_def sorted_slabs_eq list_last_def keys_last dict_lookup_def top_lookup)
      (simp add: salary_slabs_def)
  ultimately show ?thesis using top_lookup by blast
next
  case (Some b)
  with keys_sorted have b: "b \<in> set (map fst salary_slabs) \<and> x \<le> b \<and>
      (\<forall>b'\<in>set (map fst salary_slabs). x \<le> b' \<longrightarrow> b \<le> b')"
    by (rule find_le_sorted)
  then obtain t where t: "map_of salary_slabs b = Some t" using key_has_tax by blast
  with Some have "get_salaried_tax x = Inr t"
    by (simp add: get_salaried_tax_def sorted_slabs_eq dict_lookup_def)
  with b t show ?thesis by blast
qed

lemma get_salaried_tax_total: "\<exists>t. get_salaried_tax x = Inr t \<and> 0 \<le> t"
  using get_salaried_tax_key [of x] taxes_nonneg by blast

lemma get_salaried_tax_low: "x \<le> 600000 \<Longrightarrow> get_salaried_tax x = Inr 0"
  by (simp add: get_salaried_tax_def sorted_slabs_eq dict_lookup_def salary_slabs_def)

lemma get_salaried_tax_1200000: "get_salaried_tax 1200000 = Inr 6000"
  by (simp add: get_salaried_tax_def sorted_slabs_eq dict_lookup_def salary_slabs_def)

lemma get_salaried_tax_1200001: "get_salaried_tax 1200001 = Inr 72000"
  by (simp add: get_salaried_tax_def sorted_slabs_eq dict_lookup_def salary_slabs_def)

subsection \<open>The business table and its resolver\<close>

text \<open>
  The loop returns at the first bracket whose limit is not below the income, with the
  lower bound the source reads from the table: the bound carried in, at index 0, and the
  limit of the bracket before, which is finite, at every other index.
\<close>

lemma business_scan_first_match:
  assumes "i < length sl"
    and "le_bound x (fst (sl ! i))"
    and "\<forall>j<i. \<not> le_bound x (fst (sl ! j))"
  shows "\<exists>p. (if i = 0 then Finite lb else fst (sl ! (i - 1))) = Finite p \<and>
           business_scan x lb sl = fst (snd (sl ! i)) + (x - p) * snd (snd (sl ! i))"
  using assms
proof (induction sl arbitrary: i lb)
  case Nil
  then show ?case by simp
next
  case (Cons s sl)
  obtain limit base_tax rate where s: "s = (limit, base_tax, rate)"
    by (cases s)
  show ?case
  proof (cases i)
    case 0
    with Cons.prems s show ?thesis
      by (cases limit) simp_all
  next
    case (Suc k)
    with Cons.prems(3) have "\<not> le_bound x (fst ((s # sl) ! 0))" by blast
    with s obtain l where l: "limit = Finite l" "\<not> x \<le> l"
      by (cases limit) simp_all
    from Cons.prems Suc have k: "k < length sl" "le_bound x (fst (sl ! k))"
      by simp_all
    from Cons.prems(3) Suc have "\<forall>j<k. \<not> le_bound x (fst (sl ! j))"
      by auto
    with Cons.IH [of k l] k obtain p where
      p: "(if k = 0 then Finite l else fst (sl ! (k - 1))) = Finite p"
        "business_scan x l sl = fst (snd (sl ! k)) + (x - p) * snd (snd (sl ! k))"
      by blast
    from p(1) s l Suc have "fst ((s # sl) ! (i - 1)) = Finite p"
      by (cases k) simp_all
    moreover from p(2) s l Suc
    have "business_scan x lb (s # sl) = fst (snd ((s # sl) ! i)) + (x - p) * snd (snd ((s # sl) ! i))"
      by simp
    ultimately show ?thesis using Suc by simp
  qed
qed

lemma business_slabs_length: "length business_slabs = 8"
  by (simp add: business_slabs_def)

lemma business_last_matches: "le_bound x (fst (business_slabs ! 7))"
  by (simp add: business_slabs_def)

lemma calculate_business_tax_nonneg: "0 \<le> calculate_business_tax x"
  by (simp add: calculate_business_tax_def business_slabs_def)

lemma interior_indices: "Suc i < length business_slabs \<Longrightarrow> i \<in> {0, 1, 2, 3, 4, 5, 6}"
  by (auto simp: business_slabs_length)

subsection \<open>The calculator\<close>

lemma resolve_tax_valid:
  assumes "income_type = ''salaried'' \<or> income_type = ''business''"
  shows "\<exists>t. resolve_tax income_type x = Inr (Some t) \<and> 0 \<le> t"
proof (cases "income_type = ''salaried''")
  case True
  obtain t where "get_salaried_tax x = Inr t" "0 \<le> t"
    using get_salaried_tax_total [of x] by blast
  with True show ?thesis by (simp add: resolve_tax_def)
next
  case False
  with assms have "income_type = ''business''" by simp
  then show ?thesis
    by (simp add: resolve_tax_def calculate_business_tax_nonneg)
qed

lemma resolve_tax_invalid:
  assumes "income_type \<noteq> ''salaried''" and "income_type \<noteq> ''business''"
  shows "resolve_tax income_type x = Inr None"
  using assms by (simp add: resolve_tax_def)

text \<open>The local variables, once the base tax is resolved and the income is not zero.\<close>

lemma pension_tax_locals_eq:
  assumes "resolve_tax income_type x = Inr (Some t)" and "x \<noteq> 0"
  shows "pension_tax_locals income_type x p =
    Inr (Some \<lparr>loc_tax_2026 = t,
               loc_avg_tax_rate = (if 0 < t then t / x else 0),
               loc_max_invest = 0.20 * x,
               loc_invest = (if p = None \<or> p = Some 0 then 0.20 * x else min (the p) (0.20 * x)),
               loc_rebate = (if p = None \<or> p = Some 0 then 0.20 * x else min (the p) (0.20 * x))
                              * (if 0 < t then t / x else 0),
               loc_new_tax = t - (if p = None \<or> p = Some 0 then 0.20 * x else min (the p) (0.20 * x))
                              * (if 0 < t then t / x else 0)\<rparr>)"
  using assms by (simp add: pension_tax_locals_def py_div_def Let_def)

lemma pension_tax_locals_none:
  assumes "(income_type \<noteq> ''salaried'' \<and> income_type \<noteq> ''business'') \<or> x = 0"
  shows "pension_tax_locals income_type x p = Inr None"
proof (cases "income_type = ''salaried'' \<or> income_type = ''business''")
  case True
  with assms have "x = 0" by blast
  moreover obtain t where "resolve_tax income_type x = Inr (Some t)"
    using resolve_tax_valid [OF True] by blast
  ultimately show ?thesis by (simp add: pension_tax_locals_def)
next
  case False
  then have "resolve_tax income_type x = Inr None"
    by (simp add: resolve_tax_invalid)
  then show ?thesis by (simp add: pension_tax_locals_def)
qed

lemma pension_tax_locals_some:
  assumes "income_type = ''salaried'' \<or> income_type = ''business''" and "x \<noteq> 0"
  shows "\<exists>l. pension_tax_locals income_type x p = Inr (Some l) \<and>
              resolve_tax income_type x = Inr (Some (loc_tax_2026 l)) \<and>
              0 \<le> loc_tax_2026 l \<and>
              loc_avg_tax_rate l = (if 0 < loc_tax_2026 l then loc_tax_2026 l / x else 0) \<and>
              loc_max_invest l = 0.20 * x \<and>
              loc_invest l = (if p = None \<or> p = Some 0 then loc_max_invest l
                              else min (the p) (loc_max_invest l)) \<and>
              loc_rebate l = loc_invest l * loc_avg_tax_rate l \<and>
              loc_new_tax l = loc_tax_2026 l - loc_rebate l"
proof -
  obtain t where t: "resolve_tax income_type x = Inr (Some t)" "0 \<le> t"
    using resolve_tax_valid [OF assms(1)] by blast
  from pension_tax_locals_eq [OF t(1) assms(2), of p] t show ?thesis
    by simp
qed

lemma pension_tax_calculator_report:
  "pension_tax_locals income_type x p = Inr (Some l) \<Longrightarrow>
   pension_tax_calculator income_type x p = Inr (Some (report income_type x l))"
  by (simp add: pension_tax_calculator_def)

lemma locals_salaried_1200000:
  "pension_tax_locals ''salaried'' 1200000 p =
     Inr (Some \<lparr>loc_tax_2026 = 6000, loc_avg_tax_rate = 0.005, loc_max_invest = 240000,
                loc_invest = (if p = None \<or> p = Some 0 then 240000 else min (the p) 240000),
                loc_rebate = (if p = None \<or> p = Some 0 then 240000 else min (the p) 240000) * 0.005,
                loc_new_tax = 6000 -
                  (if p = None \<or> p = Some 0 then 240000 else min (the p) 240000) * 0.005\<rparr>)"
proof -
  have "resolve_tax ''salaried'' 1200000 = Inr (Some 6000)"
    by (simp add: resolve_tax_def get_salaried_tax_1200000)
  from pension_tax_locals_eq [OF this, of p] show ?thesis by simp
qed

lemma rebate_bounds:
  fixes t x inv :: rat
  assumes "0 \<le> t" and "0 < x" and "0 \<le> inv" and "inv \<le> 0.20 * x"
  shows "0 \<le> inv * (if 0 < t then t / x else 0) \<and> inv * (if 0 < t then t / x else 0) \<le> t"
proof (cases "0 < t")
  case True
  with assms have r: "0 \<le> t / x" by simp
  with assms(3) have lo: "0 \<le> inv * (t / x)" by (rule mult_nonneg_nonneg)
  from assms(4) r have "inv * (t / x) \<le> (0.20 * x) * (t / x)"
    by (rule mult_right_mono)
  also from assms(2) have "(0.20 * x) * (t / x) = 0.20 * t" by simp
  also from assms(1) have "0.20 * t \<le> t" by simp
  finally have "inv * (t / x) \<le> t" .
  with lo True show ?thesis by simp
next
  case False
  with assms(1) show ?thesis by simp
qed

lemma resolve_tax_business_600012: "resolve_tax ''business'' 600012 = Inr (Some (3 / 5))"
  by (simp add: resolve_tax_def calculate_business_tax_def business_slabs_def)

section \<open>The claims\<close>

subsection \<open>C1: the business tax resolver\<close>

text \<open>
  C1. The first bracket's bound is 600,000 and the last bracket's bound is infinite. For
  every annual income, \<open>calculate_business_tax\<close> returns 0 when the income is at most
  600,000. Otherwise some bracket has a bound that is at least the income (comparison
  inclusive), and for the first such bracket, at index \<open>i\<close>, the result is the
  bracket's base tax plus (income minus previous bound) times the bracket's rate, where
  the previous bound is the one the source reads at index \<open>i\<close>: the bound of bracket
  \<open>i - 1\<close>, and 0 at index 0.
\<close>

theorem C1_calculate_business_tax:
  "fst (hd business_slabs) = Finite 600000 \<and>
   fst (last business_slabs) = PosInf \<and>
   lower_bound_at 0 = Finite 0 \<and>
   (annual_income \<le> 600000 \<longrightarrow> calculate_business_tax annual_income = 0) \<and>
   (600000 < annual_income \<longrightarrow>
      (\<exists>i<length business_slabs. le_bound annual_income (fst (business_slabs ! i))) \<and>
      (\<forall>i<length business_slabs.
         le_bound annual_income (fst (business_slabs ! i)) \<and>
         (\<forall>j<i. \<not> le_bound annual_income (fst (business_slabs ! j))) \<longrightarrow>
         (\<exists>previous.
            lower_bound_at i = Finite previous \<and>
            (0 < i \<longrightarrow> fst (business_slabs ! (i - 1)) = Finite previous) \<and>
            calculate_business_tax annual_income =
              fst (snd (business_slabs ! i)) +
              (annual_income - previous) * snd (snd (business_slabs ! i)))))"
proof -
  have first: "fst (hd business_slabs) = Finite 600000"
    and final: "fst (last business_slabs) = PosInf"
    by (simp_all add: business_slabs_def)
  have zero: "lower_bound_at 0 = Finite 0"
    by (simp add: lower_bound_at_def)
  have low: "annual_income \<le> 600000 \<longrightarrow> calculate_business_tax annual_income = 0"
    by (simp add: calculate_business_tax_def)
  have high: "(\<exists>i<length business_slabs. le_bound annual_income (fst (business_slabs ! i))) \<and>
      (\<forall>i<length business_slabs.
         le_bound annual_income (fst (business_slabs ! i)) \<and>
         (\<forall>j<i. \<not> le_bound annual_income (fst (business_slabs ! j))) \<longrightarrow>
         (\<exists>previous.
            lower_bound_at i = Finite previous \<and>
            (0 < i \<longrightarrow> fst (business_slabs ! (i - 1)) = Finite previous) \<and>
            calculate_business_tax annual_income =
              fst (snd (business_slabs ! i)) +
              (annual_income - previous) * snd (snd (business_slabs ! i))))"
    if above: "600000 < annual_income"
  proof (intro conjI allI impI)
    show "\<exists>i<length business_slabs. le_bound annual_income (fst (business_slabs ! i))"
      using business_last_matches [of annual_income] business_slabs_length
      by (intro exI [of _ 7]) simp
  next
    fix i
    assume i: "i < length business_slabs"
      and m: "le_bound annual_income (fst (business_slabs ! i)) \<and>
         (\<forall>j<i. \<not> le_bound annual_income (fst (business_slabs ! j)))"
    from business_scan_first_match [of i business_slabs annual_income 0] i m
    obtain p where p: "(if i = 0 then Finite 0 else fst (business_slabs ! (i - 1))) = Finite p"
      "business_scan annual_income 0 business_slabs =
         fst (snd (business_slabs ! i)) + (annual_income - p) * snd (snd (business_slabs ! i))"
      by blast
    from p(1) have "lower_bound_at i = Finite p"
      by (simp add: lower_bound_at_def split: if_splits)
    moreover from p(1) have "0 < i \<longrightarrow> fst (business_slabs ! (i - 1)) = Finite p"
      by (simp split: if_splits)
    moreover from p(2) above have "calculate_business_tax annual_income =
         fst (snd (business_slabs ! i)) + (annual_income - p) * snd (snd (business_slabs ! i))"
      by (simp add: calculate_business_tax_def)
    ultimately show "\<exists>previous.
            lower_bound_at i = Finite previous \<and>
            (0 < i \<longrightarrow> fst (business_slabs ! (i - 1)) = Finite previous) \<and>
            calculate_business_tax annual_income =
              fst (snd (business_slabs ! i)) +
              (annual_income - previous) * snd (snd (business_slabs ! i))"
      by blast
  qed
  from first final zero low high show ?thesis by blast
qed

text \<open>
  At 500,000 the tax is 0; at 1,000,000 the first bracket that matches is the third,
  (1,200,000, 10,000, 0.125), and the bound before it is 800,000.
\<close>

theorem C1_witness:
  "calculate_business_tax 500000 = 0 \<and>
   calculate_business_tax 1000000 = 10000 + (1000000 - 800000) * 0.125"
proof -
  have low: "calculate_business_tax 500000 = 0"
    using C1_calculate_business_tax [of 500000] by simp
  have above: "(600000::rat) < 1000000" by simp
  have i: "(2::nat) < length business_slabs"
    by (simp add: business_slabs_def)
  have third: "business_slabs ! 2 = (Finite 1200000, 10000, 0.125)"
    and second: "business_slabs ! (2 - 1) = (Finite 800000, 0, 0.05)"
    by (simp_all add: business_slabs_def)
  have m: "le_bound 1000000 (fst (business_slabs ! 2)) \<and>
      (\<forall>j<2. \<not> le_bound 1000000 (fst (business_slabs ! j)))"
    by (simp add: business_slabs_def less_Suc_eq numeral_2_eq_2)
  from C1_calculate_business_tax [of 1000000] above i m
  obtain previous where p: "fst (business_slabs ! (2 - 1)) = Finite previous"
    "calculate_business_tax 1000000 =
       fst (snd (business_slabs ! 2)) + (1000000 - previous) * snd (snd (business_slabs ! 2))"
    by (metis zero_less_numeral)
  from p(1) second have "previous = 800000" by simp
  with p(2) third have "calculate_business_tax 1000000 = 10000 + (1000000 - 800000) * 0.125"
    by simp
  with low show ?thesis by simp
qed

subsection \<open>C2: the salaried tax resolver\<close>

text \<open>
  C2. For every annual income up to the largest bound, 36,000,000, \<open>get_salaried_tax\<close>
  returns the tax value that \<open>salary_slabs\<close> associates with the smallest bound that is
  at least the income; the comparison is inclusive, so an income that is itself a bound
  resolves to the tax value of that bound. For an income above the largest bound it returns
  12,848,850, the tax value of the largest bound. In neither case does it raise.
\<close>

theorem C2_get_salaried_tax_smallest_bound:
  "(annual_income \<le> 36000000 \<longrightarrow>
      (\<exists>b t. map_of salary_slabs b = Some t \<and> annual_income \<le> b \<and>
         (\<forall>b'\<in>dom (map_of salary_slabs). annual_income \<le> b' \<longrightarrow> b \<le> b') \<and>
         get_salaried_tax annual_income = Inr t)) \<and>
   (\<forall>t. map_of salary_slabs annual_income = Some t \<longrightarrow>
      get_salaried_tax annual_income = Inr t) \<and>
   (36000000 < annual_income \<longrightarrow> get_salaried_tax annual_income = Inr 12848850) \<and>
   map_of salary_slabs 36000000 = Some 12848850 \<and>
   (\<forall>b\<in>dom (map_of salary_slabs). b \<le> 36000000)"
proof -
  have dom_keys: "dom (map_of salary_slabs) = set (map fst salary_slabs)"
    by (simp add: dom_map_of_conv_image_fst)
  obtain k t where kt: "map_of salary_slabs k = Some t" "get_salaried_tax annual_income = Inr t"
    and k: "annual_income \<le> k \<and> (\<forall>k'\<in>set (map fst salary_slabs). annual_income \<le> k' \<longrightarrow> k \<le> k')
        \<or> 36000000 < annual_income \<and> k = 36000000"
    using get_salaried_tax_key [of annual_income] by blast
  have within: "annual_income \<le> 36000000 \<longrightarrow>
      (\<exists>b t. map_of salary_slabs b = Some t \<and> annual_income \<le> b \<and>
         (\<forall>b'\<in>dom (map_of salary_slabs). annual_income \<le> b' \<longrightarrow> b \<le> b') \<and>
         get_salaried_tax annual_income = Inr t)"
    using kt k dom_keys by auto
  have exact: "\<forall>t. map_of salary_slabs annual_income = Some t \<longrightarrow>
      get_salaried_tax annual_income = Inr t"
  proof (intro allI impI)
    fix u
    assume u: "map_of salary_slabs annual_income = Some u"
    then have mem: "annual_income \<in> set (map fst salary_slabs)"
      using dom_keys by blast
    then have "annual_income \<le> 36000000" by (rule keys_le_top)
    with k mem have "annual_income \<le> k" and "k \<le> annual_income" by auto
    then have "k = annual_income" by simp
    with kt u show "get_salaried_tax annual_income = Inr u" by simp
  qed
  have above: "36000000 < annual_income \<longrightarrow> get_salaried_tax annual_income = Inr 12848850"
  proof
    assume big: "36000000 < annual_income"
    from kt(1) have "k \<in> set (map fst salary_slabs)" using dom_keys by blast
    then have "k \<le> 36000000" by (rule keys_le_top)
    with big k have "k = 36000000" by auto
    with kt top_lookup show "get_salaried_tax annual_income = Inr 12848850" by simp
  qed
  have top: "\<forall>b\<in>dom (map_of salary_slabs). b \<le> 36000000"
    using dom_keys keys_le_top by blast
  from within exact above top top_lookup show ?thesis by blast
qed

text \<open>
  An income that is a bound (1,200,000), one between two bounds (1,000,000, which resolves
  to the bound 1,200,000) and one above the largest bound (40,000,000).
\<close>

theorem C2_witness:
  "get_salaried_tax 1200000 = Inr 6000 \<and> get_salaried_tax 40000000 = Inr 12848850 \<and>
   get_salaried_tax 1000000 = Inr 6000"
proof -
  have a: "map_of salary_slabs 1200000 = Some 6000"
    by (simp add: salary_slabs_def)
  have b: "(36000000::rat) < 40000000" by simp
  obtain k t where kt: "map_of salary_slabs k = Some t" "(1000000::rat) \<le> k"
    "\<forall>b'\<in>dom (map_of salary_slabs). 1000000 \<le> b' \<longrightarrow> k \<le> b'"
    "get_salaried_tax 1000000 = Inr t"
    using C2_get_salaried_tax_smallest_bound [of 1000000] by auto
  have "1200000 \<in> dom (map_of salary_slabs)" using a by blast
  with kt(3) have "k \<le> 1200000" by simp
  with kt(1,2) have "t = 6000"
    by (auto simp: salary_slabs_def split: if_splits)
  with kt(4) a b C2_get_salaried_tax_smallest_bound [of 1200000]
    C2_get_salaried_tax_smallest_bound [of 40000000]
  show ?thesis by simp
qed

subsection \<open>C3: when the calculator gives no result\<close>

text \<open>
  C3. \<open>pension_tax_calculator\<close> returns \<^verbatim>\<open>None\<close> if and only if the classification is
  neither "salaried" nor "business" or the annual income is zero; it never raises; and for
  a recognized classification and a nonzero annual income it returns a result, the
  nine-field report of its local variables.
\<close>

theorem C3_no_result_iff:
  "(pension_tax_calculator income_type annual_income pension_invest = Inr None) =
     ((income_type \<noteq> ''salaried'' \<and> income_type \<noteq> ''business'') \<or> annual_income = 0) \<and>
   (\<forall>e. pension_tax_calculator income_type annual_income pension_invest \<noteq> Inl e) \<and>
   ((income_type = ''salaried'' \<or> income_type = ''business'') \<and> annual_income \<noteq> 0 \<longrightarrow>
      (\<exists>l. pension_tax_calculator income_type annual_income pension_invest =
              Inr (Some (report income_type annual_income l))))"
proof (cases "(income_type \<noteq> ''salaried'' \<and> income_type \<noteq> ''business'') \<or> annual_income = 0")
  case True
  then have "pension_tax_locals income_type annual_income pension_invest = Inr None"
    by (rule pension_tax_locals_none)
  then have "pension_tax_calculator income_type annual_income pension_invest = Inr None"
    by (simp add: pension_tax_calculator_def)
  with True show ?thesis by auto
next
  case False
  then have v: "income_type = ''salaried'' \<or> income_type = ''business''"
    and nz: "annual_income \<noteq> 0"
    by auto
  obtain l where "pension_tax_locals income_type annual_income pension_invest = Inr (Some l)"
    using pension_tax_locals_some [OF v nz] by blast
  then have "pension_tax_calculator income_type annual_income pension_invest =
      Inr (Some (report income_type annual_income l))"
    by (rule pension_tax_calculator_report)
  with False show ?thesis by auto
qed

text \<open>
  An unknown classification, a zero income under either classification, and the income
  1,200,000 under either classification.
\<close>

theorem C3_witness:
  "pension_tax_calculator ''freelancer'' 1200000 None = Inr None \<and>
   pension_tax_calculator ''salaried'' 0 None = Inr None \<and>
   pension_tax_calculator ''business'' 0 (Some 5) = Inr None \<and>
   pension_tax_calculator ''business'' 1200000 None \<noteq> Inr None \<and>
   (\<exists>l. pension_tax_calculator ''salaried'' 1200000 None =
           Inr (Some (report ''salaried'' 1200000 l)))"
  using C3_no_result_iff [of "''freelancer''" 1200000 None]
    C3_no_result_iff [of "''salaried''" 0 None]
    C3_no_result_iff [of "''business''" 0 "Some 5"]
    C3_no_result_iff [of "''business''" 1200000 None]
    C3_no_result_iff [of "''salaried''" 1200000 None]
  by simp

subsection \<open>C4: the effective investment is capped at 20 per cent of the income\<close>

text \<open>
  C4. For a recognized classification, a positive annual income and any requested
  investment, absent or a number of any size or sign, the calculator returns a result and
  the investment it uses (\<^verbatim>\<open>invest\<close>) is at most 20 per cent of the annual income
  (\<^verbatim>\<open>0.20 * annual_income\<close>, which is \<^verbatim>\<open>max_invest\<close>). When the request is absent or
  zero the investment used is exactly 20 per cent of the annual income; otherwise it is the
  smaller of the request and the 20 per cent. The investment recorded in the result is at
  most the recorded maximum.
\<close>

theorem C4_effective_investment_capped:
  assumes "income_type = ''salaried'' \<or> income_type = ''business''"
    and "0 < annual_income"
  shows "\<exists>l. pension_tax_locals income_type annual_income pension_invest = Inr (Some l) \<and>
           pension_tax_calculator income_type annual_income pension_invest =
             Inr (Some (report income_type annual_income l)) \<and>
           loc_max_invest l = 0.20 * annual_income \<and>
           loc_invest l \<le> 0.20 * annual_income \<and>
           (pension_invest = None \<or> pension_invest = Some 0 \<longrightarrow>
              loc_invest l = 0.20 * annual_income) \<and>
           (\<forall>requested. pension_invest = Some requested \<and> requested \<noteq> 0 \<longrightarrow>
              loc_invest l = min requested (0.20 * annual_income)) \<and>
           Your_Pension_Investment (report income_type annual_income l) \<le>
             Max_Pension_Investment (report income_type annual_income l)"
proof -
  from assms(2) have nz: "annual_income \<noteq> 0" by simp
  obtain l where l: "pension_tax_locals income_type annual_income pension_invest = Inr (Some l)"
    and m: "loc_max_invest l = 0.20 * annual_income"
    and i: "loc_invest l = (if pension_invest = None \<or> pension_invest = Some 0
                            then loc_max_invest l
                            else min (the pension_invest) (loc_max_invest l))"
    using pension_tax_locals_some [OF assms(1) nz, of pension_invest] by blast
  from i have le: "loc_invest l \<le> loc_max_invest l" by simp
  then have "py_round (loc_invest l) \<le> py_round (loc_max_invest l)"
    by (rule py_round_mono)
  then have r: "Your_Pension_Investment (report income_type annual_income l) \<le>
      Max_Pension_Investment (report income_type annual_income l)"
    by (simp add: report_def)
  from i have i': "loc_invest l = (if pension_invest = None \<or> pension_invest = Some 0
                            then 0.20 * annual_income
                            else min (the pension_invest) (0.20 * annual_income))"
    by (simp only: m)
  from i' have d: "pension_invest = None \<or> pension_invest = Some 0 \<longrightarrow>
      loc_invest l = 0.20 * annual_income"
    by simp
  from i' have c: "\<forall>requested. pension_invest = Some requested \<and> requested \<noteq> 0 \<longrightarrow>
      loc_invest l = min requested (0.20 * annual_income)"
    by simp
  from l have "pension_tax_calculator income_type annual_income pension_invest =
      Inr (Some (report income_type annual_income l))"
    by (rule pension_tax_calculator_report)
  moreover from le have "loc_invest l \<le> 0.20 * annual_income"
    by (simp only: m)
  ultimately show ?thesis using l m r d c by blast
qed

text \<open>
  A request above the cap (500,000 against 240,000), a request below it, and no request.
\<close>

theorem C4_witness:
  "(\<exists>l. pension_tax_locals ''salaried'' 1200000 (Some 500000) = Inr (Some l) \<and>
        loc_invest l = 240000) \<and>
   (\<exists>l. pension_tax_locals ''salaried'' 1200000 (Some 100000) = Inr (Some l) \<and>
        loc_invest l = 100000) \<and>
   (\<exists>l. pension_tax_locals ''business'' 1200000 None = Inr (Some l) \<and>
        loc_invest l = 240000)"
proof -
  have p: "(0::rat) < 1200000" by simp
  from C4_effective_investment_capped [of "''salaried''" 1200000 "Some 500000"] p
  have a: "\<exists>l. pension_tax_locals ''salaried'' 1200000 (Some 500000) = Inr (Some l) \<and>
        loc_invest l = 240000"
    by auto
  from C4_effective_investment_capped [of "''salaried''" 1200000 "Some 100000"] p
  have b: "\<exists>l. pension_tax_locals ''salaried'' 1200000 (Some 100000) = Inr (Some l) \<and>
        loc_invest l = 100000"
    by auto
  from C4_effective_investment_capped [of "''business''" 1200000 None] p
  have c: "\<exists>l. pension_tax_locals ''business'' 1200000 None = Inr (Some l) \<and>
        loc_invest l = 240000"
    by auto
  from a b c show ?thesis by blast
qed

subsection \<open>C5: the tax saving and the new tax payable\<close>

text \<open>
  C5, as stated, for the fields of the result: new tax payable = base tax - tax saving.
  The calculator rounds each figure on its own when it builds the result, and the rounded
  figures need not balance. For the classification "business", the annual income 600,012
  and the requested investment 0 the base tax is 0.6, the saving 0.12 and the new tax
  0.48; the result records the base tax 1, the tax saving 0 and the new tax payable 0,
  and 0 is not 1 - 0.
\<close>

theorem C5_counterexample:
  "pension_tax_calculator ''business'' 600012 (Some 0) =
     Inr (Some \<lparr>Income_Type = ''Business'', Annual_Income = 600012,
                Monthly_Income = 50001, Tax_Without_Pension = 1,
                Max_Pension_Investment = 120002, Your_Pension_Investment = 120002,
                Tax_Saving = 0, New_Tax_Payable = 0, Monthly_Saving = 0\<rparr>) \<and>
   (0::rat) \<noteq> 1 - 0"
proof -
  have "(600012::rat) \<noteq> 0" by simp
  from pension_tax_locals_eq [OF resolve_tax_business_600012 this, of "Some 0"]
  have "pension_tax_locals ''business'' 600012 (Some 0) =
     Inr (Some \<lparr>loc_tax_2026 = 3 / 5, loc_avg_tax_rate = 1 / 1000020,
                loc_max_invest = 600012 / 5, loc_invest = 600012 / 5,
                loc_rebate = 3 / 25, loc_new_tax = 12 / 25\<rparr>)"
    by simp
  then have "pension_tax_calculator ''business'' 600012 (Some 0) =
     Inr (Some (report ''business'' 600012
       \<lparr>loc_tax_2026 = 3 / 5, loc_avg_tax_rate = 1 / 1000020,
        loc_max_invest = 600012 / 5, loc_invest = 600012 / 5,
        loc_rebate = 3 / 25, loc_new_tax = 12 / 25\<rparr>))"
    by (rule pension_tax_calculator_report)
  then show ?thesis
    by (simp add: report_def title_business py_round_numeral py_round_samples)
qed

text \<open>
  C5, amended. For a recognized classification, a positive annual income and a requested
  investment that is absent or not negative, the calculator returns a result, and the
  figures it computes before rounding satisfy: the average tax rate is the base tax divided
  by the annual income, and 0 when the base tax is 0; the tax saving is the effective
  investment times the average tax rate; the new tax is the base tax minus the tax saving;
  the tax saving is between 0 and the base tax, so the new tax is not negative. The result
  records each figure rounded to a whole unit: there the tax saving is still at most the
  base tax and the new tax payable still not negative, and the new tax payable differs
  from base tax minus tax saving by at most one unit.
\<close>

theorem C5_saving_within_base_tax:
  assumes "income_type = ''salaried'' \<or> income_type = ''business''"
    and "0 < annual_income"
    and "pension_invest = None \<or> (\<exists>requested. pension_invest = Some requested \<and> 0 \<le> requested)"
  shows "\<exists>l. pension_tax_locals income_type annual_income pension_invest = Inr (Some l) \<and>
           pension_tax_calculator income_type annual_income pension_invest =
             Inr (Some (report income_type annual_income l)) \<and>
           resolve_tax income_type annual_income = Inr (Some (loc_tax_2026 l)) \<and>
           loc_avg_tax_rate l =
             (if loc_tax_2026 l = 0 then 0 else loc_tax_2026 l / annual_income) \<and>
           loc_rebate l = loc_invest l * loc_avg_tax_rate l \<and>
           loc_new_tax l = loc_tax_2026 l - loc_rebate l \<and>
           0 \<le> loc_rebate l \<and> loc_rebate l \<le> loc_tax_2026 l \<and> 0 \<le> loc_new_tax l \<and>
           Tax_Saving (report income_type annual_income l) \<le>
             Tax_Without_Pension (report income_type annual_income l) \<and>
           0 \<le> New_Tax_Payable (report income_type annual_income l) \<and>
           \<bar>New_Tax_Payable (report income_type annual_income l) -
             (Tax_Without_Pension (report income_type annual_income l) -
              Tax_Saving (report income_type annual_income l))\<bar> \<le> 1"
proof -
  from assms(2) have nz: "annual_income \<noteq> 0" by simp
  obtain l where l: "pension_tax_locals income_type annual_income pension_invest = Inr (Some l)"
    and res: "resolve_tax income_type annual_income = Inr (Some (loc_tax_2026 l))"
    and t: "0 \<le> loc_tax_2026 l"
    and avg: "loc_avg_tax_rate l =
        (if 0 < loc_tax_2026 l then loc_tax_2026 l / annual_income else 0)"
    and m: "loc_max_invest l = 0.20 * annual_income"
    and i: "loc_invest l = (if pension_invest = None \<or> pension_invest = Some 0
                            then loc_max_invest l
                            else min (the pension_invest) (loc_max_invest l))"
    and reb: "loc_rebate l = loc_invest l * loc_avg_tax_rate l"
    and new: "loc_new_tax l = loc_tax_2026 l - loc_rebate l"
    using pension_tax_locals_some [OF assms(1) nz, of pension_invest] by blast
  from assms(2) have mpos: "0 \<le> 0.20 * annual_income" by simp
  from i have "loc_invest l \<le> loc_max_invest l" by simp
  then have hi: "loc_invest l \<le> 0.20 * annual_income" by (simp only: m)
  from mpos have m0: "0 \<le> loc_max_invest l" by (simp only: m)
  from assms(3) i m0 have lo: "0 \<le> loc_invest l" by auto
  from rebate_bounds [OF t assms(2) lo hi] reb avg
  have rb: "0 \<le> loc_rebate l" "loc_rebate l \<le> loc_tax_2026 l"
    by simp_all
  with new have nn: "0 \<le> loc_new_tax l" by simp
  from t avg have avg': "loc_avg_tax_rate l =
      (if loc_tax_2026 l = 0 then 0 else loc_tax_2026 l / annual_income)"
    by auto
  have r1: "Tax_Saving (report income_type annual_income l) \<le>
      Tax_Without_Pension (report income_type annual_income l)"
    using py_round_mono [OF rb(2)] by (simp add: report_def)
  have r2: "0 \<le> New_Tax_Payable (report income_type annual_income l)"
    using py_round_nonneg [OF nn] by (simp add: report_def)
  have r3: "\<bar>New_Tax_Payable (report income_type annual_income l) -
      (Tax_Without_Pension (report income_type annual_income l) -
       Tax_Saving (report income_type annual_income l))\<bar> \<le> 1"
    using py_round_diff [of "loc_tax_2026 l" "loc_rebate l"] new by (simp add: report_def)
  from l have "pension_tax_calculator income_type annual_income pension_invest =
      Inr (Some (report income_type annual_income l))"
    by (rule pension_tax_calculator_report)
  with l res avg' reb new rb nn r1 r2 r3 show ?thesis by blast
qed

text \<open>
  The classification "salaried" with the annual income 1,200,000 and the requested
  investment 0: base tax 6,000, saving 1,200, new tax 4,800.
\<close>

theorem C5_witness:
  "\<exists>l. pension_tax_locals ''salaried'' 1200000 (Some 0) = Inr (Some l) \<and>
       loc_tax_2026 l = 6000 \<and> loc_rebate l = 1200 \<and> loc_new_tax l = 4800 \<and>
       loc_new_tax l = loc_tax_2026 l - loc_rebate l \<and>
       loc_rebate l \<le> loc_tax_2026 l \<and> 0 \<le> loc_new_tax l"
proof -
  have v: "''salaried'' = ''salaried'' \<or> ''salaried'' = ''business''" by simp
  have p: "(0::rat) < 1200000" by simp
  have q: "Some (0::rat) = None \<or> (\<exists>requested. Some (0::rat) = Some requested \<and> 0 \<le> requested)"
    by simp
  from C5_saving_within_base_tax [OF v p q]
  obtain l where l: "pension_tax_locals ''salaried'' 1200000 (Some 0) = Inr (Some l)"
    "loc_new_tax l = loc_tax_2026 l - loc_rebate l"
    "loc_rebate l \<le> loc_tax_2026 l" "0 \<le> loc_new_tax l"
    by blast
  from l(1) have "loc_tax_2026 l = 6000 \<and> loc_rebate l = 1200 \<and> loc_new_tax l = 4800"
    by (auto simp: locals_salaried_1200000)
  with l show ?thesis by blast
qed

subsection \<open>C6: the business resolver is continuous at the bracket bounds\<close>

text \<open>
  C6. At every interior bound \<open>b\<close> of \<open>business_slabs\<close> (the bound of a bracket that has
  a next bracket): the formula of the bracket, base tax plus (\<open>b\<close> minus previous bound)
  times rate, gives at \<open>b\<close> the base tax recorded for the next bracket, so the base taxes
  are the cumulative totals of the brackets before; \<open>calculate_business_tax\<close> returns that
  value at \<open>b\<close>; and just above \<open>b\<close>, within the next bracket, the tax is the tax at
  \<open>b\<close> plus the next bracket's rate on the excess over \<open>b\<close>, with no jump.
\<close>

theorem C6_business_continuous:
  "\<forall>i. Suc i < length business_slabs \<longrightarrow>
     (\<exists>b previous.
        fst (business_slabs ! i) = Finite b \<and>
        lower_bound_at i = Finite previous \<and>
        fst (snd (business_slabs ! i)) + (b - previous) * snd (snd (business_slabs ! i)) =
          fst (snd (business_slabs ! Suc i)) \<and>
        calculate_business_tax b = fst (snd (business_slabs ! Suc i)) \<and>
        (\<forall>x. b < x \<and> le_bound x (fst (business_slabs ! Suc i)) \<longrightarrow>
           calculate_business_tax x =
             calculate_business_tax b + (x - b) * snd (snd (business_slabs ! Suc i))))"
proof (intro allI impI)
  fix i
  assume "Suc i < length business_slabs"
  then have "i \<in> {0, 1, 2, 3, 4, 5, 6}" by (rule interior_indices)
  then consider "i = 0" | "i = 1" | "i = 2" | "i = 3" | "i = 4" | "i = 5" | "i = 6"
    by auto
  then show "\<exists>b previous.
        fst (business_slabs ! i) = Finite b \<and>
        lower_bound_at i = Finite previous \<and>
        fst (snd (business_slabs ! i)) + (b - previous) * snd (snd (business_slabs ! i)) =
          fst (snd (business_slabs ! Suc i)) \<and>
        calculate_business_tax b = fst (snd (business_slabs ! Suc i)) \<and>
        (\<forall>x. b < x \<and> le_bound x (fst (business_slabs ! Suc i)) \<longrightarrow>
           calculate_business_tax x =
             calculate_business_tax b + (x - b) * snd (snd (business_slabs ! Suc i)))"
  proof cases
    case 1
    then show ?thesis
      by (simp add: business_slabs_def lower_bound_at_def calculate_business_tax_def)
  next
    case 2
    then show ?thesis
      by (simp add: business_slabs_def lower_bound_at_def calculate_business_tax_def)
  next
    case 3
    then show ?thesis
      by (simp add: business_slabs_def lower_bound_at_def calculate_business_tax_def)
  next
    case 4
    then show ?thesis
      by (simp add: business_slabs_def lower_bound_at_def calculate_business_tax_def)
  next
    case 5
    then show ?thesis
      by (simp add: business_slabs_def lower_bound_at_def calculate_business_tax_def)
  next
    case 6
    then show ?thesis
      by (simp add: business_slabs_def lower_bound_at_def calculate_business_tax_def)
  next
    case 7
    then show ?thesis
      by (simp add: business_slabs_def lower_bound_at_def calculate_business_tax_def)
  qed
qed

text \<open>
  The bound 2,400,000 of the fourth bracket (60,000 at 17.5 per cent above 1,200,000),
  and the income 2,500,000 in the fifth (270,000 at 22.5 per cent above 2,400,000).
\<close>

theorem C6_witness:
  "60000 + (2400000 - 1200000) * 0.175 = (270000::rat) \<and>
   calculate_business_tax 2400000 = 270000 \<and>
   calculate_business_tax 2500000 = 270000 + (2500000 - 2400000) * 0.225"
proof -
  have i: "Suc 3 < length business_slabs"
    by (simp add: business_slabs_def)
  have fourth: "business_slabs ! 3 = (Finite 2400000, 60000, 0.175)"
    and fifth: "business_slabs ! Suc 3 = (Finite 3000000, 270000, 0.225)"
    and lower: "lower_bound_at 3 = Finite 1200000"
    by (simp_all add: business_slabs_def lower_bound_at_def numeral_3_eq_3)
  from C6_business_continuous i
  obtain b previous where c:
    "fst (business_slabs ! 3) = Finite b"
    "lower_bound_at 3 = Finite previous"
    "fst (snd (business_slabs ! 3)) + (b - previous) * snd (snd (business_slabs ! 3)) =
       fst (snd (business_slabs ! Suc 3))"
    "calculate_business_tax b = fst (snd (business_slabs ! Suc 3))"
    "\<forall>x. b < x \<and> le_bound x (fst (business_slabs ! Suc 3)) \<longrightarrow>
       calculate_business_tax x =
         calculate_business_tax b + (x - b) * snd (snd (business_slabs ! Suc 3))"
    by blast
  from c(1) fourth have b: "b = 2400000" by simp
  from c(2) lower have p: "previous = 1200000" by simp
  have "b < 2500000 \<and> le_bound 2500000 (fst (business_slabs ! Suc 3))"
    using b fifth by simp
  with c(5) have "calculate_business_tax 2500000 =
      calculate_business_tax b + (2500000 - b) * snd (snd (business_slabs ! Suc 3))"
    by blast
  with c(3,4) b p fourth fifth show ?thesis by simp
qed

subsection \<open>C7: the salaried resolver is monotone\<close>

text \<open>
  C7. For every pair of annual incomes \<open>x \<le> y\<close>, \<open>get_salaried_tax\<close> returns a tax at
  \<open>x\<close> and a tax at \<open>y\<close>, and the first is at most the second.
\<close>

theorem C7_get_salaried_tax_monotone:
  assumes "x \<le> y"
  shows "\<exists>tx ty. get_salaried_tax x = Inr tx \<and> get_salaried_tax y = Inr ty \<and> tx \<le> ty"
proof -
  obtain kx tx where x: "map_of salary_slabs kx = Some tx" "get_salaried_tax x = Inr tx"
    and kx: "x \<le> kx \<and> (\<forall>k'\<in>set (map fst salary_slabs). x \<le> k' \<longrightarrow> kx \<le> k')
        \<or> 36000000 < x \<and> kx = 36000000"
    using get_salaried_tax_key [of x] by blast
  obtain ky ty where y: "map_of salary_slabs ky = Some ty" "get_salaried_tax y = Inr ty"
    and ky: "y \<le> ky \<and> (\<forall>k'\<in>set (map fst salary_slabs). y \<le> k' \<longrightarrow> ky \<le> k')
        \<or> 36000000 < y \<and> ky = 36000000"
    using get_salaried_tax_key [of y] by blast
  have memx: "kx \<in> set (map fst salary_slabs)" and memy: "ky \<in> set (map fst salary_slabs)"
    using x(1) y(1) by (auto dest: map_of_SomeD intro: rev_image_eqI)
  have "kx \<le> ky"
  proof (cases "y \<le> ky")
    case True
    with assms have xk: "x \<le> ky" by simp
    from memy have "ky \<le> 36000000" by (rule keys_le_top)
    with xk have "\<not> 36000000 < x" by simp
    with kx xk memy show ?thesis by blast
  next
    case False
    with ky have "ky = 36000000" by blast
    with memx show ?thesis by (simp add: keys_le_top)
  qed
  with x(1) y(1) have "tx \<le> ty"
    using lookup_mono [OF keys_sorted keys_distinct taxes_sorted] by blast
  with x(2) y(2) show ?thesis by blast
qed

text \<open>The incomes 1,200,000 and 1,200,001, on the two sides of a bound.\<close>

theorem C7_witness:
  "get_salaried_tax 1200000 = Inr 6000 \<and> get_salaried_tax 1200001 = Inr 72000 \<and>
   (6000::rat) \<le> 72000"
  using C7_get_salaried_tax_monotone [of 1200000 1200001]
  by (simp add: get_salaried_tax_1200000 get_salaried_tax_1200001)

subsection \<open>C8: no tax up to 600,000\<close>

text \<open>
  C8. For every annual income of at most 600,000 the base tax is 0 under both
  classifications: \<open>get_salaried_tax\<close> and \<open>calculate_business_tax\<close> return 0, and so
  does the step of the calculator that resolves the base tax from the classification.
\<close>

theorem C8_no_tax_up_to_600000:
  assumes "annual_income \<le> 600000"
  shows "get_salaried_tax annual_income = Inr 0 \<and>
         calculate_business_tax annual_income = 0 \<and>
         resolve_tax ''salaried'' annual_income = Inr (Some 0) \<and>
         resolve_tax ''business'' annual_income = Inr (Some 0)"
proof -
  from assms have s: "get_salaried_tax annual_income = Inr 0"
    by (rule get_salaried_tax_low)
  from assms have b: "calculate_business_tax annual_income = 0"
    by (simp add: calculate_business_tax_def)
  from s b show ?thesis
    by (simp add: resolve_tax_def)
qed

theorem C8_witness:
  "get_salaried_tax 600000 = Inr 0 \<and> calculate_business_tax 600000 = 0 \<and>
   resolve_tax ''salaried'' 600000 = Inr (Some 0) \<and>
   resolve_tax ''business'' 600000 = Inr (Some 0)"
  using C8_no_tax_up_to_600000 [of 600000] by simp

subsection \<open>C9: the scenario salaried, 1,200,000, investment 0\<close>

text \<open>
  C9. For the classification "salaried", the annual income 1,200,000 and the requested
  investment 0, the calculator computes the base tax 6,000, the average tax rate 0.005,
  the maximum and the effective investment 240,000, the tax saving 1,200 and the new tax
  payable 4,800, and its result records these figures and the monthly saving 100.
\<close>

theorem C9_scenario_salaried_1200000:
  "pension_tax_locals ''salaried'' 1200000 (Some 0) =
     Inr (Some \<lparr>loc_tax_2026 = 6000, loc_avg_tax_rate = 0.005, loc_max_invest = 240000,
                loc_invest = 240000, loc_rebate = 1200, loc_new_tax = 4800\<rparr>) \<and>
   pension_tax_calculator ''salaried'' 1200000 (Some 0) =
     Inr (Some \<lparr>Income_Type = ''Salaried'', Annual_Income = 1200000,
                Monthly_Income = 100000, Tax_Without_Pension = 6000,
                Max_Pension_Investment = 240000, Your_Pension_Investment = 240000,
                Tax_Saving = 1200, New_Tax_Payable = 4800, Monthly_Saving = 100\<rparr>)"
proof -
  have l: "pension_tax_locals ''salaried'' 1200000 (Some 0) =
     Inr (Some \<lparr>loc_tax_2026 = 6000, loc_avg_tax_rate = 0.005, loc_max_invest = 240000,
                loc_invest = 240000, loc_rebate = 1200, loc_new_tax = 4800\<rparr>)"
    by (simp add: locals_salaried_1200000)
  then have "pension_tax_calculator ''salaried'' 1200000 (Some 0) =
      Inr (Some (report ''salaried'' 1200000
        \<lparr>loc_tax_2026 = 6000, loc_avg_tax_rate = 0.005, loc_max_invest = 240000,
         loc_invest = 240000, loc_rebate = 1200, loc_new_tax = 4800\<rparr>))"
    by (rule pension_tax_calculator_report)
  then have "pension_tax_calculator ''salaried'' 1200000 (Some 0) =
     Inr (Some \<lparr>Income_Type = ''Salaried'', Annual_Income = 1200000,
                Monthly_Income = 100000, Tax_Without_Pension = 6000,
                Max_Pension_Investment = 240000, Your_Pension_Investment = 240000,
                Tax_Saving = 1200, New_Tax_Payable = 4800, Monthly_Saving = 100\<rparr>)"
    by (simp add: report_def title_salaried py_round_numeral)
  with l show ?thesis by simp
qed

subsection \<open>C10: a negative requested investment\<close>

text \<open>
  C10, as stated, for the figures recorded in the result. For the classification
  "salaried", the annual income 1,200,000 and the requested investment -0.5, the base tax
  is 6,000 and positive, but the result records the investment 0, which is not -0.5, the
  tax saving 0, which is not negative, and the new tax payable 6,000, which does not exceed
  the base tax: each figure is rounded when it is recorded.
\<close>

theorem C10_counterexample:
  "pension_tax_calculator ''salaried'' 1200000 (Some (- 1 / 2)) =
     Inr (Some \<lparr>Income_Type = ''Salaried'', Annual_Income = 1200000,
                Monthly_Income = 100000, Tax_Without_Pension = 6000,
                Max_Pension_Investment = 240000, Your_Pension_Investment = 0,
                Tax_Saving = 0, New_Tax_Payable = 6000, Monthly_Saving = 0\<rparr>) \<and>
   (0::rat) \<noteq> - 1 / 2 \<and> \<not> (0::rat) < 0 \<and> \<not> (6000::rat) < 6000"
proof -
  have "pension_tax_locals ''salaried'' 1200000 (Some (- 1 / 2)) =
     Inr (Some \<lparr>loc_tax_2026 = 6000, loc_avg_tax_rate = 0.005, loc_max_invest = 240000,
                loc_invest = - 1 / 2, loc_rebate = - 1 / 400, loc_new_tax = 2400001 / 400\<rparr>)"
    by (simp add: locals_salaried_1200000)
  then have "pension_tax_calculator ''salaried'' 1200000 (Some (- 1 / 2)) =
     Inr (Some (report ''salaried'' 1200000
       \<lparr>loc_tax_2026 = 6000, loc_avg_tax_rate = 0.005, loc_max_invest = 240000,
        loc_invest = - 1 / 2, loc_rebate = - 1 / 400, loc_new_tax = 2400001 / 400\<rparr>))"
    by (rule pension_tax_calculator_report)
  then show ?thesis
    by (simp add: report_def title_salaried py_round_numeral py_round_samples)
qed

text \<open>
  C10, amended. For a recognized classification, a positive annual income and a requested
  investment that is strictly negative, the calculator neither rejects the input nor
  replaces the request by zero: it returns a result, and the effective investment it uses
  is the negative requested amount. The result records that amount rounded to a whole
  unit, which is the amount itself when it is a whole number, and is never positive.
  Whenever the base tax is positive, the tax saving it computes is negative and the new tax
  it computes exceeds the base tax. The recorded tax saving is never positive and the
  recorded new tax payable is never below the recorded base tax.
\<close>

theorem C10_negative_investment_not_rejected:
  assumes "income_type = ''salaried'' \<or> income_type = ''business''"
    and "0 < annual_income"
    and "requested < 0"
  shows "\<exists>l. pension_tax_locals income_type annual_income (Some requested) = Inr (Some l) \<and>
           pension_tax_calculator income_type annual_income (Some requested) =
             Inr (Some (report income_type annual_income l)) \<and>
           loc_invest l = requested \<and>
           Your_Pension_Investment (report income_type annual_income l) = py_round requested \<and>
           (requested \<in> \<int> \<longrightarrow>
              Your_Pension_Investment (report income_type annual_income l) = requested) \<and>
           Your_Pension_Investment (report income_type annual_income l) \<le> 0 \<and>
           (0 < loc_tax_2026 l \<longrightarrow>
              loc_rebate l < 0 \<and> loc_tax_2026 l < loc_new_tax l) \<and>
           Tax_Saving (report income_type annual_income l) \<le> 0 \<and>
           Tax_Without_Pension (report income_type annual_income l) \<le>
             New_Tax_Payable (report income_type annual_income l)"
proof -
  from assms(2) have nz: "annual_income \<noteq> 0" by simp
  obtain l where l: "pension_tax_locals income_type annual_income (Some requested) = Inr (Some l)"
    and t: "0 \<le> loc_tax_2026 l"
    and avg: "loc_avg_tax_rate l =
        (if 0 < loc_tax_2026 l then loc_tax_2026 l / annual_income else 0)"
    and m: "loc_max_invest l = 0.20 * annual_income"
    and i: "loc_invest l = (if Some requested = None \<or> Some requested = Some 0
                            then loc_max_invest l
                            else min (the (Some requested)) (loc_max_invest l))"
    and reb: "loc_rebate l = loc_invest l * loc_avg_tax_rate l"
    and new: "loc_new_tax l = loc_tax_2026 l - loc_rebate l"
    using pension_tax_locals_some [OF assms(1) nz, of "Some requested"] by blast
  from assms(2) have "0 \<le> 0.20 * annual_income" by simp
  then have "0 \<le> loc_max_invest l" by (simp only: m)
  with i assms(3) have inv: "loc_invest l = requested" by simp
  have rate: "0 \<le> loc_avg_tax_rate l"
    using avg t assms(2) by simp
  have neg: "loc_rebate l < 0 \<and> loc_tax_2026 l < loc_new_tax l" if pos: "0 < loc_tax_2026 l"
  proof -
    from pos assms(2) avg have "0 < loc_avg_tax_rate l" by simp
    with assms(3) have "requested * loc_avg_tax_rate l < 0"
      by (rule mult_neg_pos)
    with reb inv have "loc_rebate l < 0" by simp
    with new show ?thesis by simp
  qed
  from assms(3) rate have "requested * loc_avg_tax_rate l \<le> 0"
    by (simp add: mult_nonpos_nonneg)
  with reb inv have rle: "loc_rebate l \<le> 0" by simp
  with new have nge: "loc_tax_2026 l \<le> loc_new_tax l" by simp
  have r1: "Your_Pension_Investment (report income_type annual_income l) = py_round requested"
    by (simp add: report_def inv)
  have r2: "requested \<in> \<int> \<longrightarrow>
      Your_Pension_Investment (report income_type annual_income l) = requested"
    using r1 by (simp add: py_round_Ints)
  from assms(3) have "py_round requested \<le> 0"
    by (simp add: py_round_nonpos)
  with r1 have r3: "Your_Pension_Investment (report income_type annual_income l) \<le> 0"
    by simp
  have r4: "Tax_Saving (report income_type annual_income l) \<le> 0"
    using py_round_nonpos [OF rle] by (simp add: report_def)
  have r5: "Tax_Without_Pension (report income_type annual_income l) \<le>
      New_Tax_Payable (report income_type annual_income l)"
    using py_round_mono [OF nge] by (simp add: report_def)
  from l have "pension_tax_calculator income_type annual_income (Some requested) =
      Inr (Some (report income_type annual_income l))"
    by (rule pension_tax_calculator_report)
  with l inv r1 r2 r3 neg r4 r5 show ?thesis by blast
qed

text \<open>
  The classification "salaried" with the annual income 1,200,000 and the requested
  investment -1,000: the investment used and recorded is -1,000, the saving -5 and the new
  tax 6,005, above the base tax 6,000.
\<close>

theorem C10_witness:
  "\<exists>l. pension_tax_locals ''salaried'' 1200000 (Some (- 1000)) = Inr (Some l) \<and>
       loc_invest l = - 1000 \<and> loc_tax_2026 l = 6000 \<and> loc_rebate l = - 5 \<and>
       loc_new_tax l = 6005 \<and>
       Your_Pension_Investment (report ''salaried'' 1200000 l) = - 1000"
proof -
  have v: "''salaried'' = ''salaried'' \<or> ''salaried'' = ''business''" by simp
  have p: "(0::rat) < 1200000" by simp
  have q: "(- 1000 :: rat) < 0" by simp
  have w: "(- 1000 :: rat) \<in> \<int>" by simp
  from C10_negative_investment_not_rejected [OF v p q] w
  obtain l where l: "pension_tax_locals ''salaried'' 1200000 (Some (- 1000)) = Inr (Some l)"
    "loc_invest l = - 1000"
    "Your_Pension_Investment (report ''salaried'' 1200000 l) = - 1000"
    by blast
  from l(1) have "loc_tax_2026 l = 6000 \<and> loc_rebate l = - 5 \<and> loc_new_tax l = 6005"
    by (auto simp: locals_salaried_1200000)
  with l show ?thesis by blast
qed

end
